theory Spec2Isabelle
  imports Main "HOL-Library.List_Lexorder" "HOL-Library.Log_Nat"
begin

section \<open>Strings\<close>

text \<open>
  A Python \<open>str\<close> is a sequence of Unicode code points: \<open>len\<close>, slicing, \<open>startswith\<close>
  and comparison all work on code points. It is modelled as a list of code point numbers.
  With \<open>List_Lexorder\<close> the order on such lists is the lexicographic one, which is how
  Python compares strings.
\<close>

type_synonym ustring = "nat list"

definition asc :: "string \<Rightarrow> ustring" where
  "asc s = map of_char s"

text \<open>The glyphs of the output: U+1F4C1 (folder), U+1F4C4 (page), and the box drawing
  characters U+2514, U+251C, U+2500 and U+2502.\<close>

definition folder_glyph :: nat where "folder_glyph = 128193"
definition page_glyph :: nat where "page_glyph = 128196"
definition box_up_right :: nat where "box_up_right = 9492"
definition box_vert_right :: nat where "box_vert_right = 9500"
definition box_horiz :: nat where "box_horiz = 9472"
definition box_vert :: nat where "box_vert = 9474"

text \<open>An \<open>int\<close> in an f-string: its decimal digits (the counters are never negative).\<close>

function show_nat :: "nat \<Rightarrow> ustring" where
  "show_nat n = (if n < 10 then [48 + n] else show_nat (n div 10) @ [48 + n mod 10])"
  by pat_completeness auto
termination
  by (relation "measure id") auto

declare show_nat.simps [simp del]

section \<open>The directory tree builder\<close>

subsection \<open>The file system as the builder sees it\<close>

text \<open>
  \<open>build_tree\<close> reads a path through \<open>path.name\<close>, \<open>path.is_dir()\<close>,
  \<open>path.iterdir()\<close> and \<open>path.stat().st_size\<close>. \<open>is_dir\<close> answers \<open>True\<close> for
  an \<open>FsDir\<close> and \<open>False\<close> for an \<open>FsFile\<close>, and raises \<open>OSError\<close> for an
  \<open>FsUnreadable\<close>: \<open>pathlib\<close> turns a missing path or a broken link into \<open>False\<close>
  and hands every other failure of the underlying \<open>stat\<close> (permission denied, a path
  that is too long, an input/output error) to the caller. A file carries the result of
  \<open>stat\<close> (\<open>None\<close> when it raises \<open>OSError\<close>), a directory the result of
  \<open>iterdir\<close> (\<open>None\<close> when it raises \<open>PermissionError\<close> or \<open>OSError\<close>;
  the entries in the order the system lists them otherwise).
\<close>

datatype fs_entry =
    FsFile ustring "nat option"
  | FsDir ustring "fs_entry list option"
  | FsUnreadable ustring

fun path_name :: "fs_entry \<Rightarrow> ustring" where
  "path_name (FsFile n _) = n"
| "path_name (FsDir n _) = n"
| "path_name (FsUnreadable n) = n"

text \<open>
  What a call does: it returns a value, or an \<open>OSError\<close> leaves it. The counters
  are fields of the \<open>DirectoryTree\<close> object, so what was added to them before an
  exception stays added; every outcome comes with the counters.
\<close>

datatype 'a outcome = Returned 'a | Raised

subsection \<open>Nodes, counters, configuration\<close>

text \<open>
  \<open>TreeNode\<close> of the builder: name, \<open>is_dir\<close>, size and children. Its \<open>path\<close>
  field is written once and never read, and is left out; the field \<open>size\<close> is
  \<open>node_size\<close> here.
\<close>

datatype tree_node = TreeNode (name: ustring) (is_dir: bool) (node_size: nat) (children: "tree_node list")

text \<open>The counters \<open>dir_count\<close>, \<open>file_count\<close>, \<open>total_size\<close> of \<open>DirectoryTree\<close>.\<close>

record tree_stats =
  dir_count :: nat
  file_count :: nat
  total_size :: nat

text \<open>The other fields of \<open>DirectoryTree\<close>, fixed at construction.\<close>

record config =
  ignore_dirs :: "ustring set"
  include_all :: bool
  only_dirs :: bool
  max_depth :: "int option"
  include_size :: bool

definition DEFAULT_IGNORE_DIRS :: "ustring set" where
  "DEFAULT_IGNORE_DIRS = set (map asc
     [''.git'', ''.svn'', ''.hg'', ''.bzr'',
      ''__pycache__'', ''.pytest_cache'', ''.mypy_cache'',
      ''node_modules'', ''.next'', ''.nuxt'',
      ''cache'', ''.cache'', ''tmp'', ''temp'',
      ''.idea'', ''.vscode'', ''.vs'',
      ''dist'', ''build'', ''.build'',
      ''.venv'', ''venv'', ''env'', ''.env'',
      ''.DS_Store'', ''Thumbs.db''])"

definition startswith_dot :: "ustring \<Rightarrow> bool" where
  "startswith_dot n = (case n of [] \<Rightarrow> False | c # _ \<Rightarrow> c = 46)"

definition should_ignore :: "config \<Rightarrow> ustring \<Rightarrow> bool" where
  "should_ignore cfg n =
     (if include_all cfg then False
      else n \<in> ignore_dirs cfg \<or> startswith_dot n)"

subsection \<open>\<open>build_tree\<close>\<close>

text \<open>
  \<open>build_tree\<close> takes the counters and returns them updated. \<open>build_items\<close> is the
  \<open>for\<close> loop over \<open>sorted(path.iterdir())\<close>, with the list \<open>items\<close> as accumulator.
  \<open>sorted\<close> compares the paths of one directory, which on a POSIX system is the
  comparison of their names; it is stable, as \<open>sort_key\<close> is.

  The depth test comes first, then \<open>path.is_dir()\<close> in the constructor call of the node,
  outside every \<open>try\<close>: when it raises, \<open>build_tree\<close> raises. The \<open>try\<close> of a
  directory encloses the whole loop and the assignment \<open>node.children = items\<close> after
  it. When \<open>iterdir\<close> raises, \<open>sorted\<close> raises before the first iteration; when the
  \<open>build_tree\<close> of an item raises, the loop is left at that item. In both cases the
  handler passes, the assignment is skipped, and \<open>node.children\<close> keeps the empty list
  of the constructor. The recursion limit of the interpreter is not part of the model.
\<close>

function (sequential) build_tree :: "config \<Rightarrow> fs_entry \<Rightarrow> int \<Rightarrow> tree_stats \<Rightarrow> tree_node option outcome \<times> tree_stats"
  and build_items :: "config \<Rightarrow> fs_entry list \<Rightarrow> int \<Rightarrow> tree_node list \<Rightarrow> tree_stats \<Rightarrow> tree_node list outcome \<times> tree_stats"
where
  "build_tree cfg path depth st =
     (if max_depth cfg \<noteq> None \<and> depth > the (max_depth cfg) then (Returned None, st)
      else
        (case path of
           FsUnreadable n \<Rightarrow> (Raised, st)
         | FsDir n listing \<Rightarrow>
             (let st1 = st\<lparr>dir_count := dir_count st + 1\<rparr> in
              case listing of
                None \<Rightarrow> (Returned (Some (TreeNode n True 0 [])), st1)
              | Some entries \<Rightarrow>
                  (case build_items cfg (sort_key path_name entries) depth [] st1 of
                     (Returned items, st2) \<Rightarrow> (Returned (Some (TreeNode n True 0 items)), st2)
                   | (Raised, st2) \<Rightarrow> (Returned (Some (TreeNode n True 0 [])), st2)))
         | FsFile n stat \<Rightarrow>
             (if \<not> only_dirs cfg then
                (let st1 = st\<lparr>file_count := file_count st + 1\<rparr> in
                 case stat of
                   Some sz \<Rightarrow>
                     (Returned (Some (TreeNode n False sz [])),
                      st1\<lparr>total_size := total_size st1 + sz\<rparr>)
                 | None \<Rightarrow> (Returned (Some (TreeNode n False 0 [])), st1))
              else (Returned None, st))))"
| "build_items cfg [] depth items st = (Returned items, st)"
| "build_items cfg (item # rest) depth items st =
     (if should_ignore cfg (path_name item) then build_items cfg rest depth items st
      else
        (case build_tree cfg item (depth + 1) st of
           (Returned (Some child_node), st') \<Rightarrow>
             build_items cfg rest depth (items @ [child_node]) st'
         | (Returned None, st') \<Rightarrow> build_items cfg rest depth items st'
         | (Raised, st') \<Rightarrow> (Raised, st')))"
  by pat_completeness auto

lemma size_list_insort_key: "size_list f (insort_key k x xs) = Suc (f x + size_list f xs)"
  by (induction xs) auto

lemma size_list_sort_key: "size_list f (sort_key k xs) = size_list f xs"
  by (induction xs) (auto simp: size_list_insort_key)

termination build_tree
  apply (relation "measure (\<lambda>x. case x of
      Inl (cfg, p, d, st) \<Rightarrow> 2 * size p
    | Inr (cfg, es, d, items, st) \<Rightarrow> 2 * size_list size es + 1)")
    apply (auto simp: size_list_sort_key)
  done

declare build_tree.simps [simp del]

text \<open>\<open>generate_tree\<close> resets the three counters and builds from the root path.\<close>

definition generate_tree :: "config \<Rightarrow> fs_entry \<Rightarrow> tree_stats \<Rightarrow> tree_node option outcome \<times> tree_stats" where
  "generate_tree cfg root_path st =
     build_tree cfg root_path 0 (st\<lparr>dir_count := 0, file_count := 0, total_size := 0\<rparr>)"

subsection \<open>\<open>format_size\<close>\<close>

text \<open>
  \<open>format_size\<close> works on floats: \<open>size /= 1024.0\<close> turns the \<open>int\<close> into the
  nearest double (ties to even, exact below \<open>2^53\<close>) and divides it. A division of a
  double of at least 1024 by 1024 is exact, and so is a comparison of an \<open>int\<close> or a
  double with \<open>1024.0\<close>. The value is therefore always a fraction \<open>num / den\<close>
  with \<open>den\<close> a power of 1024, and the model computes with it exactly.
  \<open>f"{size:.2f}"\<close> prints the exact value rounded to two decimals, ties to even.
  Python raises \<open>OverflowError\<close> on an \<open>int\<close> of \<open>2^1024\<close> or more; a size is a sum
  of file sizes of 64 bits, and that branch is not part of the model.
\<close>

definition float_of_nat :: "nat \<Rightarrow> nat" where
  "float_of_nat n =
     (if n < 2 ^ 53 then n
      else
        (let e = floorlog 2 n - 53;
             q = n div 2 ^ e;
             r = n mod 2 ^ e
         in (if 2 * r > 2 ^ e \<or> (2 * r = 2 ^ e \<and> odd q) then q + 1 else q) * 2 ^ e))"

definition round_half_even :: "nat \<Rightarrow> nat \<Rightarrow> nat" where
  "round_half_even num den =
     (let q = num div den; r = num mod den
      in if 2 * r > den \<or> (2 * r = den \<and> odd q) then q + 1 else q)"

definition fmt_2f :: "nat \<Rightarrow> nat \<Rightarrow> ustring" where
  "fmt_2f num den =
     (let h = round_half_even (100 * num) den
      in show_nat (h div 100) @ asc ''.'' @ [48 + h mod 100 div 10, 48 + h mod 10])"

fun format_size_loop :: "nat \<Rightarrow> nat \<Rightarrow> string list \<Rightarrow> ustring" where
  "format_size_loop num den [] = fmt_2f num den @ asc '' PB''"
| "format_size_loop num den (unit # units) =
     (if num < 1024 * den then fmt_2f num den @ asc '' '' @ asc unit
      else format_size_loop (float_of_nat num) (den * 1024) units)"

definition format_size :: "nat \<Rightarrow> ustring" where
  "format_size sz = format_size_loop sz 1 [''B'', ''KB'', ''MB'', ''GB'', ''TB'']"

section \<open>The Markdown generator\<close>

text \<open>
  \<open>tree_to_lines\<close> with its \<open>for i, child in enumerate(children)\<close> loop as
  \<open>children_lines\<close>, which carries the index \<open>i\<close>, \<open>len(children)\<close> and the
  prefix of the children. The first argument is \<open>tree_generator.root_path.name\<close>.
  The loop of \<open>generate_markdown\<close> over the root's children is the same loop with the
  empty prefix.
\<close>

definition connector :: "bool \<Rightarrow> ustring" where
  "connector is_last =
     (if is_last then [box_up_right, box_horiz, box_horiz, 32]
      else [box_vert_right, box_horiz, box_horiz, 32])"

definition marker :: "bool \<Rightarrow> ustring" where
  "marker d = (if d then [folder_glyph] else [page_glyph])"

fun tree_to_lines :: "ustring \<Rightarrow> config \<Rightarrow> tree_node \<Rightarrow> ustring \<Rightarrow> bool \<Rightarrow> ustring list"
  and children_lines :: "ustring \<Rightarrow> config \<Rightarrow> tree_node list \<Rightarrow> nat \<Rightarrow> nat \<Rightarrow> ustring \<Rightarrow> ustring list"
where
  "tree_to_lines root_path_name cfg (TreeNode n d sz cs) prefix is_last =
     (if n \<noteq> root_path_name then
        [prefix @ connector is_last @ marker d @ asc '' '' @ n
           @ (if include_size cfg \<and> \<not> d then asc '' ('' @ format_size sz @ asc '')'' else [])
           @ asc ''\<newline>'']
      else [])
     @ (if d \<and> cs \<noteq> [] then
          children_lines root_path_name cfg cs 0 (length cs)
            (if n = root_path_name then prefix
             else prefix @ (if is_last then asc ''    '' else box_vert # asc ''   ''))
        else [])"
| "children_lines root_path_name cfg [] i len child_prefix = []"
| "children_lines root_path_name cfg (child # rest) i len child_prefix =
     tree_to_lines root_path_name cfg child child_prefix (i = len - 1)
     @ children_lines root_path_name cfg rest (i + 1) len child_prefix"

text \<open>\<open>self.root_name = root_name or tree_generator.root_path.name\<close>: the argument
  when it is given and not empty.\<close>

definition mg_root_name :: "ustring option \<Rightarrow> fs_entry \<Rightarrow> ustring" where
  "mg_root_name root_name root_path =
     (case root_name of
        None \<Rightarrow> path_name root_path
      | Some r \<Rightarrow> if r = [] then path_name root_path else r)"

definition placeholder_document :: ustring where
  "placeholder_document =
     [35, 32, 30446, 24405, 32467, 26500, 10, 10,
      30446, 24405, 20026, 31354, 25110, 26080, 27861, 35775, 38382, 12290, 10]"

definition title_prefix :: ustring where
  "title_prefix = [35, 32, 30446, 24405, 32467, 26500, 58, 32]"

definition fence :: ustring where
  "fence = asc ''```\<newline>''"

definition stats_heading :: ustring where
  "stats_heading = [10, 35, 35, 32, 32479, 35745, 20449, 24687, 10, 10]"

definition dir_count_label :: ustring where
  "dir_count_label = [45, 32, 42, 42, 30446, 24405, 25968, 42, 42, 58, 32]"

definition file_count_label :: ustring where
  "file_count_label = [45, 32, 42, 42, 25991, 20214, 25968, 42, 42, 58, 32]"

definition total_size_label :: ustring where
  "total_size_label = [45, 32, 42, 42, 24635, 22823, 23567, 42, 42, 58, 32]"

text \<open>The lines between the two fences: the root line and the lines of the root's
  children.\<close>

definition block_lines :: "config \<Rightarrow> ustring option \<Rightarrow> fs_entry \<Rightarrow> tree_node \<Rightarrow> ustring list" where
  "block_lines cfg root_name root_path root_node =
     [marker (is_dir root_node) @ asc '' '' @ mg_root_name root_name root_path @ asc ''/\<newline>'']
     @ (if children root_node \<noteq> [] then
          children_lines (path_name root_path) cfg (children root_node) 0
            (length (children root_node)) []
        else [])"

definition summary_lines :: "config \<Rightarrow> tree_stats \<Rightarrow> ustring list" where
  "summary_lines cfg st =
     [stats_heading, dir_count_label @ show_nat (dir_count st) @ asc ''\<newline>'']
     @ (if \<not> only_dirs cfg then
          [file_count_label @ show_nat (file_count st) @ asc ''\<newline>'']
          @ (if include_size cfg then
               [total_size_label @ format_size (total_size st) @ asc ''\<newline>'']
             else [])
        else [])"

text \<open>\<open>generate_markdown\<close> has no handler: what \<open>generate_tree\<close> raises leaves
  it.\<close>

definition generate_markdown :: "config \<Rightarrow> ustring option \<Rightarrow> fs_entry \<Rightarrow> tree_stats \<Rightarrow> ustring outcome \<times> tree_stats" where
  "generate_markdown cfg root_name root_path st =
     (case generate_tree cfg root_path st of
        (Raised, st') \<Rightarrow> (Raised, st')
      | (Returned None, st') \<Rightarrow> (Returned placeholder_document, st')
      | (Returned (Some root_node), st') \<Rightarrow>
          (Returned (concat
             ([title_prefix @ mg_root_name root_name root_path @ asc ''\<newline>\<newline>'', fence]
              @ block_lines cfg root_name root_path root_node
              @ [fence]
              @ summary_lines cfg st')),
           st'))"

text \<open>
  \<open>main\<close> builds the \<open>DirectoryTree\<close> from the command line: the ignore set is empty
  with \<open>--all\<close> and \<open>DEFAULT_IGNORE_DIRS\<close> otherwise.
\<close>

definition main_config :: "bool \<Rightarrow> bool \<Rightarrow> int option \<Rightarrow> bool \<Rightarrow> config" where
  "main_config all od depth sz =
     \<lparr>ignore_dirs = (if all then {} else DEFAULT_IGNORE_DIRS),
      include_all = all, only_dirs = od, max_depth = depth, include_size = sz\<rparr>"

text \<open>The counters as \<open>DirectoryTree.__init__\<close> sets them.\<close>

definition initial_stats :: tree_stats where
  "initial_stats = \<lparr>dir_count = 0, file_count = 0, total_size = 0\<rparr>"

section \<open>Example directories\<close>

text \<open>\<open>proj/\<close> with \<open>a.txt\<close> of 10 bytes and \<open>b/c.txt\<close> of 2048 bytes, listed by the
  system with \<open>b\<close> first.\<close>

definition example_proj :: fs_entry where
  "example_proj =
     FsDir (asc ''proj'')
       (Some [FsDir (asc ''b'') (Some [FsFile (asc ''c.txt'') (Some 2048)]),
              FsFile (asc ''a.txt'') (Some 10)])"

text \<open>\<open>proj/\<close> holding a directory that is also called \<open>proj\<close>, with one empty file
  \<open>x\<close> in it.\<close>

definition example_nested :: fs_entry where
  "example_nested =
     FsDir (asc ''proj'') (Some [FsDir (asc ''proj'') (Some [FsFile (asc ''x'') (Some 0)])])"

text \<open>\<open>proj/\<close> with a \<open>.git\<close> directory, a \<open>node_modules\<close> directory and a file.\<close>

definition example_ignored :: fs_entry where
  "example_ignored =
     FsDir (asc ''proj'')
       (Some [FsDir (asc ''node_modules'') (Some []),
              FsFile (asc ''main.py'') (Some 5),
              FsDir (asc ''.git'') (Some [FsFile (asc ''HEAD'') (Some 23)])])"

section \<open>The renderer as the specification words it\<close>

text \<open>
  The tree block of the specification: every entry below the root has a line made of
  the ancestry prefix (for each ancestor below the root, outermost first, four spaces if
  that ancestor was a last sibling and a vertical bar plus three spaces otherwise), the
  connector of the entry, its marker, a space, its name and, for a file when sizes are
  on, the size in parentheses. The lines of an entry's children follow its own line.
\<close>

definition spec_ancestry_prefix :: "bool list \<Rightarrow> ustring" where
  "spec_ancestry_prefix ancestors =
     concat (map (\<lambda>is_last. if is_last then asc ''    '' else box_vert # asc ''   '') ancestors)"

definition spec_entry_line :: "config \<Rightarrow> bool list \<Rightarrow> bool \<Rightarrow> tree_node \<Rightarrow> ustring" where
  "spec_entry_line cfg ancestors is_last node =
     spec_ancestry_prefix ancestors @ connector is_last @ marker (is_dir node) @ asc '' '' @ name node
       @ (if include_size cfg \<and> \<not> is_dir node
          then asc '' ('' @ format_size (node_size node) @ asc '')'' else [])
       @ asc ''\<newline>''"

fun spec_lines :: "config \<Rightarrow> bool list \<Rightarrow> tree_node list \<Rightarrow> ustring list" where
  "spec_lines cfg ancestors [] = []"
| "spec_lines cfg ancestors (TreeNode n d s cs # rest) =
     spec_entry_line cfg ancestors (rest = []) (TreeNode n d s cs)
       # spec_lines cfg (ancestors @ [rest = []]) cs
       @ spec_lines cfg ancestors rest"

section \<open>The parser of the generated viewer\<close>

subsection \<open>Strings and regular expressions\<close>

text \<open>
  The characters that \<open>str.strip\<close>, \<open>str.lstrip\<close> and the class \<open>\s\<close> of \<open>re\<close> on
  a \<open>str\<close> pattern take as white space.
\<close>

definition is_space :: "nat \<Rightarrow> bool" where
  "is_space c =
     ((9 \<le> c \<and> c \<le> 13) \<or> (28 \<le> c \<and> c \<le> 32) \<or> c = 133 \<or> c = 160 \<or> c = 5760
      \<or> (8192 \<le> c \<and> c \<le> 8202) \<or> c = 8232 \<or> c = 8233 \<or> c = 8239 \<or> c = 8287
      \<or> c = 12288)"

definition py_lstrip :: "ustring \<Rightarrow> ustring" where
  "py_lstrip s = dropWhile is_space s"

definition py_strip :: "ustring \<Rightarrow> ustring" where
  "py_strip s = rev (dropWhile is_space (rev (dropWhile is_space s)))"

text \<open>\<open>s.split("\n")\<close>: the pieces between the newlines, one more than there are
  newlines.\<close>

fun py_split_nl :: "ustring \<Rightarrow> ustring list" where
  "py_split_nl [] = [[]]"
| "py_split_nl (c # cs) =
     (if c = 10 then [] # py_split_nl cs
      else (case py_split_nl cs of
              [] \<Rightarrow> [[c]]
            | piece # pieces \<Rightarrow> (c # piece) # pieces))"

text \<open>
  The two patterns of \<open>parse_tree_lines\<close> use single characters and character classes,
  the greedy \<open>+\<close> and the lazy \<open>+?\<close> on a class, sequences, the greedy \<open>?\<close>, groups and
  \<open>$\<close>. \<open>matches\<close> lists, for a pattern and a position, every way the pattern can
  match there, in the order in which the backtracking matcher of \<open>re\<close> tries them; each
  is the rest of the text and the groups captured. \<open>re.match\<close> returns the first.
  \<open>.\<close> is any character but the newline; \<open>$\<close> holds at the end of the text and
  before a newline that ends it.
\<close>

datatype char_class = Lit nat | OneOf "nat list" | NoneOf "nat list" | Space | Dot

fun in_class :: "char_class \<Rightarrow> nat \<Rightarrow> bool" where
  "in_class (Lit c) x = (x = c)"
| "in_class (OneOf cs) x = (x \<in> set cs)"
| "in_class (NoneOf cs) x = (x \<notin> set cs)"
| "in_class Space x = is_space x"
| "in_class Dot x = (x \<noteq> 10)"

datatype regex =
    One char_class
  | PlusGreedy char_class
  | PlusLazy char_class
  | Cat regex regex
  | OptGreedy regex
  | Group nat regex
  | EndAnchor

type_synonym match_state = "ustring \<times> (nat \<rightharpoonup> ustring)"

fun matches :: "regex \<Rightarrow> match_state \<Rightarrow> match_state list" where
  "matches (One c) (s, g) =
     (case s of [] \<Rightarrow> [] | x # xs \<Rightarrow> if in_class c x then [(xs, g)] else [])"
| "matches (PlusGreedy c) (s, g) =
     map (\<lambda>k. (drop k s, g)) (rev [1..<Suc (length (takeWhile (in_class c) s))])"
| "matches (PlusLazy c) (s, g) =
     map (\<lambda>k. (drop k s, g)) [1..<Suc (length (takeWhile (in_class c) s))]"
| "matches (Cat a b) st = concat (map (matches b) (matches a st))"
| "matches (OptGreedy a) st = matches a st @ [st]"
| "matches (Group i a) (s, g) =
     map (\<lambda>(s', g'). (s', g'(i \<mapsto> take (length s - length s') s))) (matches a (s, g))"
| "matches EndAnchor (s, g) = (if s = [] \<or> s = [10] then [(s, g)] else [])"

definition re_match :: "regex \<Rightarrow> ustring \<Rightarrow> (nat \<rightharpoonup> ustring) option" where
  "re_match r s = (case matches r (s, Map.empty) of [] \<Rightarrow> None | (_, g) # _ \<Rightarrow> Some g)"

text \<open>The pattern of the root line: folder glyph, \<open>\s+\<close>, \<open>(.+?)\<close>, \<open>/?\<close>, \<open>$\<close>.\<close>

definition root_pattern :: regex where
  "root_pattern =
     Cat (One (Lit folder_glyph))
       (Cat (PlusGreedy Space)
          (Cat (Group 1 (PlusLazy Dot))
             (Cat (OptGreedy (One (Lit 47))) EndAnchor)))"

text \<open>The pattern of an entry line: an optional group of a tee or a corner, two
  horizontal bars and \<open>\s+\<close>; a group of one of the two glyphs; \<open>\s+\<close>; the group
  \<open>(.+?)\<close>; optionally \<open>\s+\<close>, an opening parenthesis, a group of one or more
  characters other than the closing parenthesis, and the closing parenthesis; \<open>$\<close>.\<close>

definition content_pattern :: regex where
  "content_pattern =
     Cat (OptGreedy (Group 1
            (Cat (One (OneOf [box_vert_right, box_up_right]))
               (Cat (One (Lit box_horiz)) (Cat (One (Lit box_horiz)) (PlusGreedy Space))))))
       (Cat (Group 2 (One (OneOf [folder_glyph, page_glyph])))
          (Cat (PlusGreedy Space)
             (Cat (Group 3 (PlusLazy Dot))
                (Cat (OptGreedy
                        (Cat (PlusGreedy Space)
                           (Cat (One (Lit 40))
                              (Cat (Group 4 (PlusGreedy (NoneOf [41]))) (One (Lit 41))))))
                   EndAnchor))))"

subsection \<open>\<open>parse_tree_lines\<close>\<close>

text \<open>
  The \<open>TreeNode\<close> objects of the viewer are shared between the stack and the children
  lists and are changed in place, so they live in a store: a node is its index, and
  \<open>children\<close> and \<open>parent\<close> hold indices. The stack has its top at the head. The entry
  \<open>item_to_node["root"]\<close> that the parser also writes is not read by it and is left out.
\<close>

record view_node =
  v_name :: ustring
  v_is_dir :: bool
  v_size :: ustring
  v_children :: "nat list"
  v_parent :: "nat option"

type_synonym store = "view_node list"

definition new_node :: "ustring \<Rightarrow> bool \<Rightarrow> ustring \<Rightarrow> view_node" where
  "new_node n d sz = \<lparr>v_name = n, v_is_dir = d, v_size = sz, v_children = [], v_parent = None\<rparr>"

text \<open>\<open>while len(stack) > 1 and stack[-1][1] >= level: stack.pop()\<close>\<close>

fun pop_stack :: "(nat \<times> int) list \<Rightarrow> int \<Rightarrow> (nat \<times> int) list" where
  "pop_stack [] level = []"
| "pop_stack ((node, lv) # below) level =
     (if length ((node, lv) # below) > 1 \<and> lv \<ge> level then pop_stack below level
      else (node, lv) # below)"

text \<open>One turn of the loop over \<open>lines[1:]\<close>.\<close>

definition parse_line :: "ustring \<Rightarrow> store \<times> (nat \<times> int) list \<Rightarrow> store \<times> (nat \<times> int) list" where
  "parse_line line state =
     (let (nodes, stack) = state in
      if py_strip line = [] then state
      else
        (let stripped = py_lstrip line in
         if stripped = [] then state
         else
           (let leading_chars = length line - length stripped in
            case re_match content_pattern stripped of
              None \<Rightarrow> state
            | Some g \<Rightarrow>
                (let is_dir = (g 2 = Some [folder_glyph]);
                     n = the (g 3);
                     sz = (case g 4 of None \<Rightarrow> [] | Some t \<Rightarrow> t);
                     level = int (leading_chars div 4);
                     node = length nodes;
                     stack1 = pop_stack stack level;
                     nodes1 =
                       (case stack1 of
                          [] \<Rightarrow> nodes @ [new_node n is_dir sz]
                        | (parent_node, _) # _ \<Rightarrow>
                            (nodes @ [(new_node n is_dir sz)\<lparr>v_parent := Some parent_node\<rparr>])
                              [parent_node := (nodes ! parent_node)
                                 \<lparr>v_children := v_children (nodes ! parent_node) @ [node]\<rparr>])
                 in (nodes1, if is_dir then (node, level) # stack1 else stack1)))))"

definition parse_tree_lines :: "ustring list \<Rightarrow> (nat \<times> store) option" where
  "parse_tree_lines lines =
     (case lines of
        [] \<Rightarrow> None
      | first # rest \<Rightarrow>
          (case re_match root_pattern (py_strip first) of
             None \<Rightarrow> None
           | Some g \<Rightarrow>
               Some (0, fst (fold parse_line rest ([new_node (the (g 1)) True []], [(0, - 1)])))))"

text \<open>\<open>load_directory_tree\<close> hands the parser the text between the fences, stripped and
  split at the newlines.\<close>

definition fenced_block_lines :: "ustring list \<Rightarrow> ustring list" where
  "fenced_block_lines block = py_split_nl (py_strip (concat block))"

text \<open>
  The tree a store holds below a node, read with fuel (a node of a store of \<open>n\<close> nodes
  built by the parser is at most \<open>n\<close> deep), and the tree of the builder as the viewer
  would have to show it: names, kinds and nesting, the size as the text of the line.
\<close>

datatype view_tree = ViewTree ustring bool ustring "view_tree list"

fun those_list :: "'a option list \<Rightarrow> 'a list option" where
  "those_list [] = Some []"
| "those_list (None # _) = None"
| "those_list (Some x # xs) = (case those_list xs of None \<Rightarrow> None | Some ys \<Rightarrow> Some (x # ys))"

fun read_tree :: "nat \<Rightarrow> store \<Rightarrow> nat \<Rightarrow> view_tree option" where
  "read_tree 0 nodes i = None"
| "read_tree (Suc fuel) nodes i =
     (if i < length nodes then
        (case those_list (map (read_tree fuel nodes) (v_children (nodes ! i))) of
           None \<Rightarrow> None
         | Some cs \<Rightarrow> Some (ViewTree (v_name (nodes ! i)) (v_is_dir (nodes ! i)) (v_size (nodes ! i)) cs))
      else None)"

definition parsed_tree :: "ustring list \<Rightarrow> view_tree option" where
  "parsed_tree lines =
     (case parse_tree_lines lines of
        None \<Rightarrow> None
      | Some (root_node, nodes) \<Rightarrow> read_tree (length nodes) nodes root_node)"

fun view_of :: "config \<Rightarrow> tree_node \<Rightarrow> view_tree" where
  "view_of cfg (TreeNode n d sz cs) =
     ViewTree n d (if include_size cfg \<and> \<not> d then format_size sz else []) (map (view_of cfg) cs)"

text \<open>\<open>proj/\<close> with a directory \<open>a\<close> holding a file \<open>x\<close>, and a file \<open>b\<close> after it.\<close>

definition example_two_levels :: fs_entry where
  "example_two_levels =
     FsDir (asc ''proj'')
       (Some [FsDir (asc ''a'') (Some [FsFile (asc ''x'') (Some 1)]),
              FsFile (asc ''b'') (Some 2)])"

section \<open>Vocabulary of the properties\<close>

text \<open>The nodes of a tree, the root first; a node whose children are in name order and
  none of them ignored; a tree all of whose nodes are so.\<close>

fun subtrees :: "tree_node \<Rightarrow> tree_node list" where
  "subtrees (TreeNode n d s cs) = TreeNode n d s cs # concat (map subtrees cs)"

definition children_ok :: "config \<Rightarrow> tree_node \<Rightarrow> bool" where
  "children_ok cfg u =
     (sorted (map name (children u))
      \<and> list_all (\<lambda>c. \<not> should_ignore cfg (name c)) (children u))"

definition tree_ok :: "config \<Rightarrow> tree_node \<Rightarrow> bool" where
  "tree_ok cfg t = list_all (children_ok cfg) (subtrees t)"

text \<open>The number of levels below a node: 0 for a node without children.\<close>

fun tree_height :: "tree_node \<Rightarrow> nat" where
  "tree_height (TreeNode n d s cs) = fold max (map (\<lambda>c. Suc (tree_height c)) cs) 0"

text \<open>A file system cut below a level: the entries \<open>k\<close> levels below \<open>e\<close> stay, and a
  directory at that level lists nothing.\<close>

fun prune_fs :: "nat \<Rightarrow> fs_entry \<Rightarrow> fs_entry" where
  "prune_fs k (FsFile n stat) = FsFile n stat"
| "prune_fs k (FsUnreadable n) = FsUnreadable n"
| "prune_fs k (FsDir n None) = FsDir n None"
| "prune_fs k (FsDir n (Some es)) =
     FsDir n (Some (case k of 0 \<Rightarrow> [] | Suc j \<Rightarrow> map (prune_fs j) es))"


text \<open>
  The tree of the directories-only mode as the specification describes it: the entries
  of a directory are taken in the order of their names, those the ignore predicate
  matches are left out, a directory within the depth limit gives a node whose children
  come from its entries one level deeper, and a file gives none.
\<close>

fun cat_options :: "'a option list \<Rightarrow> 'a list" where
  "cat_options [] = []"
| "cat_options (None # xs) = cat_options xs"
| "cat_options (Some x # xs) = x # cat_options xs"


text \<open>\<open>proj/\<close> with a file \<open>a\<close>, an entry \<open>locked\<close> on which \<open>is_dir\<close> raises, and a file
  \<open>z\<close>.\<close>

definition example_unreadable :: fs_entry where
  "example_unreadable =
     FsDir (asc ''proj'')
       (Some [FsFile (asc ''a'') (Some 3), FsUnreadable (asc ''locked''), FsFile (asc ''z'') (Some 4)])"

text \<open>\<open>proj/\<close> three directories deep, with files at every level.\<close>

definition example_deep :: fs_entry where
  "example_deep =
     FsDir (asc ''proj'')
       (Some [FsFile (asc ''h.txt'') (Some 7),
              FsDir (asc ''a'')
                (Some [FsFile (asc ''g.txt'') (Some 5),
                       FsDir (asc ''b'') (Some [FsFile (asc ''f.txt'') (Some 9)])])])"

section \<open>Evaluation\<close>

lemma asc_Nil: "asc [] = []"
  by (simp add: asc_def)

lemma asc_Cons: "asc (c # cs) = of_char c # asc cs"
  by (simp add: asc_def)

lemmas eval_defs = generate_markdown_def generate_tree_def build_tree.simps main_config_def
  should_ignore_def
  DEFAULT_IGNORE_DIRS_def startswith_dot_def asc_Nil asc_Cons block_lines_def summary_lines_def
  mg_root_name_def format_size_def fmt_2f_def round_half_even_def float_of_nat_def Let_def
  show_nat.simps marker_def connector_def initial_stats_def

section \<open>Properties of the builder\<close>

lemma build_tree_pruned:
  "max_depth cfg = Some d \<Longrightarrow> depth > d \<Longrightarrow> build_tree cfg e depth st = (Returned None, st)"
  by (simp add: build_tree.simps)

lemma build_items_pruned:
  "max_depth cfg = Some d \<Longrightarrow> depth + 1 > d \<Longrightarrow>
   build_items cfg es depth items st = (Returned items, st)"
  by (induction es) (simp_all add: build_tree_pruned)

lemma build_tree_dir_cases:
  assumes "\<not> (max_depth cfg \<noteq> None \<and> depth > the (max_depth cfg))"
    and "build_items cfg (sort_key path_name entries) depth [] (st\<lparr>dir_count := dir_count st + 1\<rparr>)
           = (r, st2)"
  shows "build_tree cfg (FsDir n (Some entries)) depth st
    = (Returned (Some (TreeNode n True 0 (case r of Returned items \<Rightarrow> items | Raised \<Rightarrow> []))), st2)"
  using assms by (cases r) (simp_all add: build_tree.simps)

lemma build_items_step:
  assumes "\<not> should_ignore cfg (path_name item)"
    and "build_tree cfg item (depth + 1) st = (r, st')"
  shows "build_items cfg (item # rest) depth items st
    = (case r of
         Returned (Some child) \<Rightarrow> build_items cfg rest depth (items @ [child]) st'
       | Returned None \<Rightarrow> build_items cfg rest depth items st'
       | Raised \<Rightarrow> (Raised, st'))"
  using assms by (simp split: outcome.splits option.splits)

lemma reset_stats:
  "(st::tree_stats)\<lparr>dir_count := 0, file_count := 0, total_size := 0\<rparr>
     = \<lparr>dir_count = 0, file_count = 0, total_size = 0\<rparr>"
  by simp

lemma generate_tree_reset: "generate_tree cfg rp st = generate_tree cfg rp st'"
  by (simp only: generate_tree_def reset_stats)

lemma generate_markdown_reset:
  "generate_markdown cfg rn rp st = generate_markdown cfg rn rp st'"
  by (simp only: generate_markdown_def generate_tree_reset [of cfg rp st st'])

lemma generate_tree_depth_zero:
  "max_depth cfg = Some 0 \<Longrightarrow>
   generate_tree cfg (FsDir n listing) st
     = (Returned (Some (TreeNode n True 0 [])), \<lparr>dir_count = 1, file_count = 0, total_size = 0\<rparr>)"
  by (cases listing)
    (simp_all add: generate_tree_def build_tree.simps build_items_pruned del: build_items.simps)

subsection \<open>The depth limit\<close>

lemma tree_height_le:
  "(tree_height (TreeNode n d s cs) \<le> k) = (\<forall>c\<in>set cs. Suc (tree_height c) \<le> k)"
proof -
  have "\<And>a. (fold max (map (\<lambda>c. Suc (tree_height c)) cs) a \<le> k)
      = (a \<le> k \<and> (\<forall>c\<in>set cs. Suc (tree_height c) \<le> k))"
    by (induction cs) auto
  then show ?thesis by simp
qed

lemma build_tree_height:
  "max_depth cfg = Some d \<Longrightarrow>
   \<forall>t. fst (build_tree cfg e depth st) = Returned (Some t) \<longrightarrow> depth + int (tree_height t) \<le> d"
  "max_depth cfg = Some d \<Longrightarrow>
   \<forall>t\<in>set items. depth + 1 + int (tree_height t) \<le> d \<Longrightarrow>
   \<forall>its. fst (build_items cfg es depth items st) = Returned its \<longrightarrow>
     (\<forall>t\<in>set its. depth + 1 + int (tree_height t) \<le> d)"
proof (induction cfg e depth st and cfg es depth items st rule: build_tree_build_items.induct)
  case (1 cfg path depth st)
  note md = "1.prems"
  show ?case
  proof (cases "max_depth cfg \<noteq> None \<and> depth > the (max_depth cfg)")
    case True
    then show ?thesis by (simp add: build_tree.simps)
  next
    case False
    with md have le: "depth \<le> d" by simp
    show ?thesis
    proof (cases path)
      case (FsFile n stat)
      with False le show ?thesis
        by (auto simp: build_tree.simps Let_def split: option.splits)
    next
      case (FsUnreadable n)
      with False show ?thesis by (simp add: build_tree.simps)
    next
      case (FsDir n listing)
      show ?thesis
      proof (cases listing)
        case None
        with FsDir False le show ?thesis by (simp add: build_tree.simps)
      next
        case (Some entries)
        obtain r st2 where r: "build_items cfg (sort_key path_name entries) depth []
            (st\<lparr>dir_count := dir_count st + 1\<rparr>) = (r, st2)"
          by (cases "build_items cfg (sort_key path_name entries) depth []
                (st\<lparr>dir_count := dir_count st + 1\<rparr>)") auto
        have ih: "\<forall>its. r = Returned its \<longrightarrow> (\<forall>t\<in>set its. depth + 1 + int (tree_height t) \<le> d)"
        proof -
          have "\<forall>its. fst (build_items cfg (sort_key path_name entries) depth []
                (st\<lparr>dir_count := dir_count st + 1\<rparr>)) = Returned its \<longrightarrow>
              (\<forall>t\<in>set its. depth + 1 + int (tree_height t) \<le> d)"
            by (rule "1.IH" [OF False FsDir refl Some md]) simp
          with r show ?thesis by simp
        qed
        have "depth + int (tree_height (TreeNode n True 0 its)) \<le> d"
          if "\<forall>t\<in>set its. depth + 1 + int (tree_height t) \<le> d" for its
        proof -
          have "tree_height (TreeNode n True 0 its) \<le> nat (d - depth)"
            unfolding tree_height_le using that by auto
          with le show ?thesis by linarith
        qed
        with ih le show ?thesis
          unfolding FsDir Some build_tree_dir_cases [OF False r]
          by (cases r) simp_all
      qed
    qed
  qed
next
  case (2 cfg depth items st)
  then show ?case by simp
next
  case (3 cfg item rest depth items st)
  note prems = "3.prems"
  show ?case
  proof (cases "should_ignore cfg (path_name item)")
    case True
    then have eq: "build_items cfg (item # rest) depth items st = build_items cfg rest depth items st"
      by simp
    show ?thesis unfolding eq by (rule "3.IH"(1) [OF True prems])
  next
    case False
    obtain r st' where r: "build_tree cfg item (depth + 1) st = (r, st')"
      by (cases "build_tree cfg item (depth + 1) st") auto
    note eq = build_items_step [OF False r, where rest = rest and items = items]
    show ?thesis
    proof (cases r)
      case Raised
      then show ?thesis unfolding eq by simp
    next
      case (Returned ro)
      show ?thesis
      proof (cases ro)
        case None
        show ?thesis unfolding eq Returned None
          using "3.IH"(3) [OF False r [symmetric] Returned None prems] by simp
      next
        case (Some child)
        from "3.IH"(2) [OF False prems(1)] r Returned Some
        have c: "depth + 1 + int (tree_height child) \<le> d" by simp
        have q: "\<forall>t\<in>set (items @ [child]). depth + 1 + int (tree_height t) \<le> d"
          using prems(2) c by simp
        show ?thesis unfolding eq Returned Some
          using "3.IH"(4) [OF False r [symmetric] Returned Some prems(1) q] by simp
      qed
    qed
  qed
qed

lemma path_name_prune_fs [simp]: "path_name (prune_fs k e) = path_name e"
  by (induction k e rule: prune_fs.induct) simp_all

lemma insort_key_map_same_key:
  assumes "\<And>x. key (f x) = key x"
  shows "insort_key key (f x) (map f xs) = map f (insort_key key x xs)"
  by (induction xs) (simp_all add: assms)

lemma sort_key_map_same_key:
  assumes "\<And>x. key (f x) = key x"
  shows "sort_key key (map f xs) = map f (sort_key key xs)"
  by (induction xs) (simp_all add: insort_key_map_same_key [where key = key and f = f, OF assms])

lemma build_tree_prune:
  "max_depth cfg = Some d \<Longrightarrow> depth \<le> d \<Longrightarrow>
   build_tree cfg (prune_fs (nat (d - depth)) e) depth st = build_tree cfg e depth st"
  "max_depth cfg = Some d \<Longrightarrow> depth + 1 \<le> d \<Longrightarrow>
   build_items cfg (map (prune_fs (nat (d - (depth + 1)))) es) depth items st
     = build_items cfg es depth items st"
proof (induction cfg e depth st and cfg es depth items st rule: build_tree_build_items.induct)
  case (1 cfg path depth st)
  note md = "1.prems"(1) and le = "1.prems"(2)
  from md le have np: "\<not> (max_depth cfg \<noteq> None \<and> depth > the (max_depth cfg))" by simp
  show ?case
  proof (cases path)
    case (FsFile n stat)
    then show ?thesis by simp
  next
    case (FsUnreadable n)
    then show ?thesis by simp
  next
    case (FsDir n listing)
    show ?thesis
    proof (cases listing)
      case None
      with FsDir show ?thesis by simp
    next
      case (Some entries)
      let ?st1 = "st\<lparr>dir_count := dir_count st + 1\<rparr>"
      obtain r st2 where r: "build_items cfg (sort_key path_name entries) depth [] ?st1 = (r, st2)"
        by (cases "build_items cfg (sort_key path_name entries) depth [] ?st1") auto
      note rhs = build_tree_dir_cases [OF np r, of n]
      show ?thesis
      proof (cases "depth = d")
        case True
        have a: "build_items cfg (sort_key path_name entries) depth [] ?st1 = (Returned [], ?st1)"
          using md True by (simp add: build_items_pruned)
        with r have r0: "r = Returned []" "st2 = ?st1" by simp_all
        have p: "prune_fs (nat (d - depth)) path = FsDir n (Some [])"
          using True FsDir Some by simp
        have b: "build_items cfg (sort_key path_name []) depth [] ?st1 = (Returned [], ?st1)"
          by simp
        show ?thesis
          unfolding p
          unfolding FsDir Some rhs build_tree_dir_cases [OF np b, of n]
          using r0 by simp
      next
        case False
        with le have lt: "depth + 1 \<le> d" by simp
        then have k: "nat (d - depth) = Suc (nat (d - (depth + 1)))" by simp
        have p: "prune_fs (nat (d - depth)) path
            = FsDir n (Some (map (prune_fs (nat (d - (depth + 1)))) entries))"
          unfolding k using FsDir Some by simp
        have s: "sort_key path_name (map (prune_fs (nat (d - (depth + 1)))) entries)
            = map (prune_fs (nat (d - (depth + 1)))) (sort_key path_name entries)"
          by (rule sort_key_map_same_key) simp
        have ih: "build_items cfg (map (prune_fs (nat (d - (depth + 1)))) (sort_key path_name entries))
              depth [] ?st1
            = build_items cfg (sort_key path_name entries) depth [] ?st1"
          by (rule "1.IH" [OF np FsDir refl Some md lt])
        have r': "build_items cfg (sort_key path_name (map (prune_fs (nat (d - (depth + 1)))) entries))
              depth [] ?st1 = (r, st2)"
          by (simp only: s ih r)
        show ?thesis
          unfolding p
          unfolding FsDir Some rhs build_tree_dir_cases [OF np r', of n] ..
      qed
    qed
  qed
next
  case (2 cfg depth items st)
  then show ?case by simp
next
  case (3 cfg item rest depth items st)
  note md = "3.prems"(1) and le = "3.prems"(2)
  let ?k = "nat (d - (depth + 1))"
  show ?case
  proof (cases "should_ignore cfg (path_name item)")
    case True
    with "3.IH"(1) [OF True md le] show ?thesis by simp
  next
    case False
    have bt: "build_tree cfg (prune_fs ?k item) (depth + 1) st = build_tree cfg item (depth + 1) st"
      by (rule "3.IH"(2) [OF False md le])
    obtain r st' where r: "build_tree cfg item (depth + 1) st = (r, st')"
      by (cases "build_tree cfg item (depth + 1) st") auto
    have np: "\<not> should_ignore cfg (path_name (prune_fs ?k item))" using False by simp
    have lhs: "build_items cfg (map (prune_fs ?k) (item # rest)) depth items st
        = (case r of
             Returned (Some child) \<Rightarrow> build_items cfg (map (prune_fs ?k) rest) depth (items @ [child]) st'
           | Returned None \<Rightarrow> build_items cfg (map (prune_fs ?k) rest) depth items st'
           | Raised \<Rightarrow> (Raised, st'))"
      using build_items_step [OF np, of depth st r st' "map (prune_fs ?k) rest" items] bt r
      by simp
    note rhs = build_items_step [OF False r, where rest = rest and items = items]
    show ?thesis
    proof (cases r)
      case Raised
      then show ?thesis unfolding lhs rhs by simp
    next
      case (Returned ro)
      show ?thesis
      proof (cases ro)
        case None
        show ?thesis unfolding lhs rhs Returned None
          using "3.IH"(3) [OF False r [symmetric] Returned None md le] by simp
      next
        case (Some child)
        show ?thesis unfolding lhs rhs Returned Some
          using "3.IH"(4) [OF False r [symmetric] Returned Some md le] by simp
      qed
    qed
  qed
qed

text \<open>
  C5. With a maximum depth \<open>d\<close>: \<open>build_tree\<close> on any entry at a depth greater than
  \<open>d\<close> returns no node and the counters as they were; a tree built at depth \<open>depth\<close>
  has at most \<open>d - depth\<close> levels below its root, so it holds no node of an entry
  deeper than \<open>d\<close>; and the node, the counters and the outcome are those of the file
  system cut below depth \<open>d\<close>, so nothing deeper is looked at or counted. With maximum
  depth 0, whatever a root directory holds, the tree is the root alone, the counters say
  one directory, no file and no bytes, and the block of the document is the root line
  and nothing else.
\<close>

theorem depth_limit_prunes:
  assumes "max_depth cfg = Some d"
  shows "(d < depth \<longrightarrow> build_tree cfg e depth st = (Returned None, st))
       \<and> (\<forall>t. fst (build_tree cfg e depth st) = Returned (Some t) \<longrightarrow>
             depth + int (tree_height t) \<le> d)
       \<and> (depth \<le> d \<longrightarrow>
             build_tree cfg e depth st = build_tree cfg (prune_fs (nat (d - depth)) e) depth st)
       \<and> (d = 0 \<longrightarrow>
            generate_tree cfg (FsDir n listing) st
              = (Returned (Some (TreeNode n True 0 [])),
                 \<lparr>dir_count = 1, file_count = 0, total_size = 0\<rparr>)
          \<and> block_lines cfg rn (FsDir n listing) (TreeNode n True 0 [])
              = [[folder_glyph] @ asc '' '' @ mg_root_name rn (FsDir n listing) @ asc ''/\<newline>''])"
proof (intro conjI impI)
  assume "d < depth"
  with assms show "build_tree cfg e depth st = (Returned None, st)"
    by (rule build_tree_pruned)
next
  show "\<forall>t. fst (build_tree cfg e depth st) = Returned (Some t) \<longrightarrow>
      depth + int (tree_height t) \<le> d"
    by (rule build_tree_height(1) [OF assms])
next
  assume "depth \<le> d"
  with assms show "build_tree cfg e depth st
      = build_tree cfg (prune_fs (nat (d - depth)) e) depth st"
    by (rule build_tree_prune(1) [symmetric])
next
  assume "d = 0"
  with assms show "generate_tree cfg (FsDir n listing) st
      = (Returned (Some (TreeNode n True 0 [])), \<lparr>dir_count = 1, file_count = 0, total_size = 0\<rparr>)"
    by (simp add: generate_tree_depth_zero)
next
  show "block_lines cfg rn (FsDir n listing) (TreeNode n True 0 [])
      = [[folder_glyph] @ asc '' '' @ mg_root_name rn (FsDir n listing) @ asc ''/\<newline>'']"
    by (simp add: block_lines_def marker_def)
qed

theorem depth_limit_prunes_witness:
  "max_depth (main_config False False (Some 1) False) = Some 1
   \<and> build_tree (main_config False False (Some 1) False) (FsFile (asc ''g.txt'') (Some 5)) 2
         \<lparr>dir_count = 2, file_count = 0, total_size = 0\<rparr>
       = (Returned None, \<lparr>dir_count = 2, file_count = 0, total_size = 0\<rparr>)
   \<and> build_tree (main_config False False (Some 1) False) example_deep 0 initial_stats
       = (Returned (Some (TreeNode (asc ''proj'') True 0
            [TreeNode (asc ''a'') True 0 [], TreeNode (asc ''h.txt'') False 7 []])),
          \<lparr>dir_count = 2, file_count = 1, total_size = 7\<rparr>)
   \<and> tree_height (TreeNode (asc ''proj'') True 0
         [TreeNode (asc ''a'') True 0 [], TreeNode (asc ''h.txt'') False 7 []]) = 1
   \<and> prune_fs 1 example_deep
       = FsDir (asc ''proj'') (Some [FsFile (asc ''h.txt'') (Some 7), FsDir (asc ''a'') (Some [])])"
  using depth_limit_prunes [of "main_config False False (Some 1) False" 1 2
      "FsFile (asc ''g.txt'') (Some 5)" "\<lparr>dir_count = 2, file_count = 0, total_size = 0\<rparr>"
      "asc ''proj''" None None]
    depth_limit_prunes [of "main_config False False (Some 1) False" 1 0
      example_deep initial_stats "asc ''proj''" None None]
  by (simp add: eval_defs example_deep_def)

subsection \<open>Failures of the file system\<close>

text \<open>
  A directory whose listing fails and a file whose \<open>stat\<close> fails are kept: the loop of
  the enclosing directory goes on with the node appended and counted. An entry on which
  \<open>is_dir\<close> raises ends the loop with the exception, which the handler of the enclosing
  directory absorbs into a node without children.
\<close>

lemma listing_failure_kept:
  assumes "\<not> should_ignore cfg n"
    and "\<not> (max_depth cfg \<noteq> None \<and> depth + 1 > the (max_depth cfg))"
  shows "build_items cfg (FsDir n None # rest) depth items st
    = build_items cfg rest depth (items @ [TreeNode n True 0 []])
        (st\<lparr>dir_count := dir_count st + 1\<rparr>)"
  using assms by (cases "max_depth cfg") (auto simp: build_tree.simps)

lemma stat_failure_kept:
  assumes "\<not> should_ignore cfg n"
    and "\<not> (max_depth cfg \<noteq> None \<and> depth + 1 > the (max_depth cfg))"
    and "\<not> only_dirs cfg"
  shows "build_items cfg (FsFile n None # rest) depth items st
    = build_items cfg rest depth (items @ [TreeNode n False 0 []])
        (st\<lparr>file_count := file_count st + 1\<rparr>)"
  using assms by (cases "max_depth cfg") (auto simp: build_tree.simps)

lemma is_dir_failure_ends_loop:
  assumes "\<not> should_ignore cfg n"
    and "\<not> (max_depth cfg \<noteq> None \<and> depth + 1 > the (max_depth cfg))"
  shows "build_items cfg (FsUnreadable n # rest) depth items st = (Raised, st)"
  using assms by (cases "max_depth cfg") (auto simp: build_tree.simps)

lemma build_tree_never_raises_on_directory:
  "fst (build_tree cfg (FsDir n listing) depth st) \<noteq> Raised"
  by (cases listing) (auto simp: build_tree.simps Let_def split: prod.splits outcome.splits)

text \<open>
  C7, at \<open>example_unreadable\<close>: the file \<open>a\<close> is built and counted, then \<open>is_dir\<close>
  raises on \<open>locked\<close>; the root is kept, but without the child collected before the
  failure, while the counters keep the file and its 3 bytes, and \<open>z\<close> is never looked
  at. The document has the root line alone and a summary of 1 file. When \<open>is_dir\<close>
  raises on the root path itself, the exception leaves \<open>generate_markdown\<close>.
\<close>

theorem unreadable_entry_drops_collected_children:
  "generate_markdown (main_config False False None False) None example_unreadable initial_stats
     = (Returned (concat
          [title_prefix @ asc ''proj\<newline>\<newline>'',
           fence,
           [folder_glyph] @ asc '' proj/\<newline>'',
           fence,
           stats_heading,
           dir_count_label @ asc ''1\<newline>'',
           file_count_label @ asc ''1\<newline>'']),
        \<lparr>dir_count = 1, file_count = 1, total_size = 3\<rparr>)
   \<and> generate_tree (main_config False False None False) example_unreadable initial_stats
       = (Returned (Some (TreeNode (asc ''proj'') True 0 [])),
          \<lparr>dir_count = 1, file_count = 1, total_size = 3\<rparr>)
   \<and> build_items (main_config False False None False) [FsFile (asc ''a'') (Some 3)] 0 []
         \<lparr>dir_count = 1, file_count = 0, total_size = 0\<rparr>
       = (Returned [TreeNode (asc ''a'') False 3 []],
          \<lparr>dir_count = 1, file_count = 1, total_size = 3\<rparr>)
   \<and> generate_markdown (main_config False False None False) None (FsUnreadable (asc ''proj''))
         initial_stats
       = (Raised, initial_stats)"
  by (simp add: eval_defs example_unreadable_def)

text \<open>
  C9. A second \<open>generate_markdown\<close> on the same file system, started from the counters
  the first one left, returns the same document and the same counters: \<open>generate_tree\<close>
  resets the counters first.
\<close>

theorem generate_markdown_idempotent:
  "generate_markdown cfg rn rp (snd (generate_markdown cfg rn rp st))
     = generate_markdown cfg rn rp st"
  by (rule generate_markdown_reset)

section \<open>The documents of the examples\<close>

text \<open>
  C2, as the code has it. For \<open>example_proj\<close> with sizes on, the document lists
  \<open>a.txt (10.00 B)\<close>, then \<open>b\<close>, then \<open>c.txt (2.00 KB)\<close> under it, and the summary
  says 2 directories (the root is counted), 2 files and a total of \<open>2.01 KB\<close>
  (2058 bytes).
\<close>

theorem example_proj_document:
  "generate_markdown (main_config False False None True) None example_proj initial_stats
     = (Returned (concat
          [title_prefix @ asc ''proj\<newline>\<newline>'',
           fence,
           [folder_glyph] @ asc '' proj/\<newline>'',
           connector False @ [page_glyph] @ asc '' a.txt (10.00 B)\<newline>'',
           connector True @ [folder_glyph] @ asc '' b\<newline>'',
           asc ''    '' @ connector True @ [page_glyph] @ asc '' c.txt (2.00 KB)\<newline>'',
           fence,
           stats_heading,
           dir_count_label @ asc ''2\<newline>'',
           file_count_label @ asc ''2\<newline>'',
           total_size_label @ asc ''2.01 KB\<newline>'']),
        \<lparr>dir_count = 2, file_count = 2, total_size = 2058\<rparr>)"
  by (simp add: eval_defs example_proj_def)

text \<open>The summary of C2 as the claim words it (1 directory, a total of \<open>2.05 KB\<close>)
  is not the summary of the code.\<close>

theorem example_proj_summary_differs:
  "dir_count (snd (generate_markdown (main_config False False None True) None example_proj initial_stats)) \<noteq> 1
   \<and> format_size (total_size (snd (generate_markdown (main_config False False None True) None example_proj initial_stats)))
       \<noteq> asc ''2.05 KB''"
  by (simp add: eval_defs example_proj_def)

text \<open>
  C3, at an empty root directory: the document is the title, a block with the root
  line alone and the summary; it is not the placeholder document.
\<close>

theorem empty_root_document:
  "generate_markdown (main_config False False None False) None (FsDir (asc ''proj'') (Some [])) initial_stats
     = (Returned (concat
          [title_prefix @ asc ''proj\<newline>\<newline>'',
           fence,
           [folder_glyph] @ asc '' proj/\<newline>'',
           fence,
           stats_heading,
           dir_count_label @ asc ''1\<newline>'',
           file_count_label @ asc ''0\<newline>'']),
        \<lparr>dir_count = 1, file_count = 0, total_size = 0\<rparr>)
   \<and> fst (generate_markdown (main_config False False None False) None (FsDir (asc ''proj'') (Some [])) initial_stats)
       \<noteq> Returned placeholder_document"
  by (simp add: eval_defs placeholder_document_def title_prefix_def)

section \<open>Invariants of the built tree\<close>

lemma tree_ok_node:
  "tree_ok cfg (TreeNode n d s cs) =
     (sorted (map name cs) \<and> (\<forall>c\<in>set cs. \<not> should_ignore cfg (name c) \<and> tree_ok cfg c))"
  by (auto simp: tree_ok_def children_ok_def list_all_iff)

lemma build_tree_ok:
  "\<forall>t. fst (build_tree cfg e depth st) = Returned (Some t) \<longrightarrow>
     name t = path_name e \<and> tree_ok cfg t"
  "sorted (map path_name es) \<Longrightarrow> sorted (map name items) \<Longrightarrow>
   \<forall>t\<in>set items. \<forall>e\<in>set es. name t \<le> path_name e \<Longrightarrow>
   \<forall>t\<in>set items. \<not> should_ignore cfg (name t) \<and> tree_ok cfg t \<Longrightarrow>
   \<forall>its. fst (build_items cfg es depth items st) = Returned its \<longrightarrow>
     sorted (map name its) \<and> (\<forall>t\<in>set its. \<not> should_ignore cfg (name t) \<and> tree_ok cfg t)"
proof (induction cfg e depth st and cfg es depth items st rule: build_tree_build_items.induct)
  case (1 cfg path depth st)
  show ?case
  proof (cases "max_depth cfg \<noteq> None \<and> depth > the (max_depth cfg)")
    case True
    then show ?thesis by (simp add: build_tree.simps)
  next
    case False
    show ?thesis
    proof (cases path)
      case (FsFile n stat)
      with False show ?thesis
        by (auto simp: build_tree.simps tree_ok_node Let_def split: option.splits)
    next
      case (FsUnreadable n)
      with False show ?thesis by (simp add: build_tree.simps)
    next
      case (FsDir n listing)
      show ?thesis
      proof (cases listing)
        case None
        with FsDir False show ?thesis by (simp add: build_tree.simps tree_ok_node)
      next
        case (Some entries)
        obtain r st2 where r: "build_items cfg (sort_key path_name entries) depth []
            (st\<lparr>dir_count := dir_count st + 1\<rparr>) = (r, st2)"
          by (cases "build_items cfg (sort_key path_name entries) depth []
                (st\<lparr>dir_count := dir_count st + 1\<rparr>)") auto
        have ih: "\<forall>its. r = Returned its \<longrightarrow>
            sorted (map name its) \<and> (\<forall>t\<in>set its. \<not> should_ignore cfg (name t) \<and> tree_ok cfg t)"
        proof -
          have "\<forall>its. fst (build_items cfg (sort_key path_name entries) depth []
                (st\<lparr>dir_count := dir_count st + 1\<rparr>)) = Returned its \<longrightarrow>
              sorted (map name its)
              \<and> (\<forall>t\<in>set its. \<not> should_ignore cfg (name t) \<and> tree_ok cfg t)"
            by (rule "1.IH" [OF False FsDir refl Some]) simp_all
          with r show ?thesis by simp
        qed
        show ?thesis
          unfolding FsDir Some build_tree_dir_cases [OF False r]
          using ih by (cases r) (simp_all add: tree_ok_node)
      qed
    qed
  qed
next
  case (2 cfg depth items st)
  then show ?case by simp
next
  case (3 cfg item rest depth items st)
  note prems = "3.prems"
  have p1: "sorted (map path_name rest)" using prems(1) by simp
  have p3: "\<forall>t\<in>set items. \<forall>e\<in>set rest. name t \<le> path_name e" using prems(3) by simp
  have le_item: "\<forall>t\<in>set items. name t \<le> path_name item" using prems(3) by simp
  have item_le: "\<forall>e\<in>set rest. path_name item \<le> path_name e" using prems(1) by simp
  show ?case
  proof (cases "should_ignore cfg (path_name item)")
    case True
    then have eq: "build_items cfg (item # rest) depth items st = build_items cfg rest depth items st"
      by simp
    show ?thesis unfolding eq by (rule "3.IH"(1) [OF True p1 prems(2) p3 prems(4)])
  next
    case False
    obtain r st' where r: "build_tree cfg item (depth + 1) st = (r, st')"
      by (cases "build_tree cfg item (depth + 1) st") auto
    note eq = build_items_step [OF False r, where rest = rest and items = items]
    show ?thesis
    proof (cases r)
      case Raised
      then show ?thesis unfolding eq by simp
    next
      case (Returned ro)
      show ?thesis
      proof (cases ro)
        case None
        show ?thesis unfolding eq Returned None
          using "3.IH"(3) [OF False r [symmetric] Returned None p1 prems(2) p3 prems(4)] by simp
      next
        case (Some child)
        from "3.IH"(2) [OF False] r Returned Some
        have c: "name child = path_name item" "tree_ok cfg child" by simp_all
        have q2: "sorted (map name (items @ [child]))"
          using prems(2) le_item c(1) by (simp add: sorted_append)
        have q3: "\<forall>t\<in>set (items @ [child]). \<forall>e\<in>set rest. name t \<le> path_name e"
          using p3 item_le c(1) by simp
        have q4: "\<forall>t\<in>set (items @ [child]). \<not> should_ignore cfg (name t) \<and> tree_ok cfg t"
          using prems(4) c False by simp
        show ?thesis unfolding eq Returned Some
          using "3.IH"(4) [OF False r [symmetric] Returned Some p1 q2 q3 q4] by simp
      qed
    qed
  qed
qed


text \<open>With \<open>only_dirs\<close>, where \<open>is_dir\<close> answers on every entry, the tree of
  \<open>build_tree\<close> is the tree of directories of the specification.\<close>

lemma cat_options_append: "cat_options (xs @ ys) = cat_options xs @ cat_options ys"
  by (induction xs rule: cat_options.induct) simp_all


text \<open>
  C6, as the code has it. In every tree that \<open>build_tree\<close> returns, the children of
  every node are in name order and no child has a name the ignore predicate matches: the
  nodes below the root are never ignored ones. The root itself is not tested. With
  include-all the predicate matches no name. In \<open>example_ignored\<close>, under the
  configuration of \<open>main\<close>, \<open>.git\<close> and \<open>node_modules\<close> are absent without \<open>--all\<close>
  and present with it.
\<close>

theorem built_tree_sorted_and_filtered:
  "(\<forall>t. fst (build_tree cfg e depth st) = Returned (Some t) \<longrightarrow>
       list_all (children_ok cfg) (subtrees t))
   \<and> (include_all cfg \<longrightarrow> \<not> should_ignore cfg n)
   \<and> fst (generate_tree (main_config False False None False) example_ignored initial_stats)
       = Returned (Some (TreeNode (asc ''proj'') True 0 [TreeNode (asc ''main.py'') False 5 []]))
   \<and> fst (generate_tree (main_config True False None False) example_ignored initial_stats)
       = Returned (Some (TreeNode (asc ''proj'') True 0
           [TreeNode (asc ''.git'') True 0 [TreeNode (asc ''HEAD'') False 23 []],
            TreeNode (asc ''main.py'') False 5 [],
            TreeNode (asc ''node_modules'') True 0 []]))"
proof (intro conjI)
  show "\<forall>t. fst (build_tree cfg e depth st) = Returned (Some t) \<longrightarrow>
      list_all (children_ok cfg) (subtrees t)"
    using build_tree_ok(1) [of cfg e depth st] by (simp add: tree_ok_def)
  show "include_all cfg \<longrightarrow> \<not> should_ignore cfg n"
    by (simp add: should_ignore_def)
  show "fst (generate_tree (main_config False False None False) example_ignored initial_stats)
       = Returned (Some (TreeNode (asc ''proj'') True 0 [TreeNode (asc ''main.py'') False 5 []]))"
    by (simp add: eval_defs example_ignored_def)
  show "fst (generate_tree (main_config True False None False) example_ignored initial_stats)
       = Returned (Some (TreeNode (asc ''proj'') True 0
           [TreeNode (asc ''.git'') True 0 [TreeNode (asc ''HEAD'') False 23 []],
            TreeNode (asc ''main.py'') False 5 [],
            TreeNode (asc ''node_modules'') True 0 []]))"
    by (simp add: eval_defs example_ignored_def)
qed

theorem built_tree_sorted_and_filtered_witness:
  "fst (build_tree (main_config False False None False) example_ignored 0 initial_stats)
     = Returned (Some (TreeNode (asc ''proj'') True 0 [TreeNode (asc ''main.py'') False 5 []]))
   \<and> list_all (children_ok (main_config False False None False))
       (subtrees (TreeNode (asc ''proj'') True 0 [TreeNode (asc ''main.py'') False 5 []]))
   \<and> include_all (main_config True False None False)
   \<and> \<not> should_ignore (main_config True False None False) (asc ''.git'')"
  using built_tree_sorted_and_filtered [of "main_config False False None False" example_ignored 0
      initial_stats "asc ''.git''"]
    built_tree_sorted_and_filtered [of "main_config True False None False" example_ignored 0
      initial_stats "asc ''.git''"]
  by (simp add: eval_defs example_ignored_def)

text \<open>The root of a tree can have an ignored name: a root directory called \<open>build\<close> is
  built, and \<open>build\<close> is a name the predicate matches.\<close>

theorem ignored_root_is_built:
  "fst (generate_tree (main_config False False None False) (FsDir (asc ''build'') (Some [])) initial_stats)
     = Returned (Some (TreeNode (asc ''build'') True 0 []))
   \<and> should_ignore (main_config False False None False) (asc ''build'')"
  by (simp add: eval_defs)



section \<open>The root test of the renderer\<close>

text \<open>
  C10. \<open>tree_to_lines\<close> decides by the name whether a node is the root: for a node
  whose name is the name of the root path it emits no line and hands its own prefix to
  its children unchanged. In \<open>example_nested\<close> the inner directory \<open>proj\<close> has no line
  in the document, its file \<open>x\<close> stands directly under the root line, and the summary
  counts 2 directories.
\<close>

theorem root_treatment_by_name:
  "(name node = rn \<longrightarrow>
      tree_to_lines rn cfg node prefix is_last
        = (if is_dir node \<and> children node \<noteq> []
           then children_lines rn cfg (children node) 0 (length (children node)) prefix
           else []))
   \<and> generate_markdown (main_config False False None False) None example_nested initial_stats
       = (Returned (concat
            [title_prefix @ asc ''proj\<newline>\<newline>'',
             fence,
             [folder_glyph] @ asc '' proj/\<newline>'',
             connector True @ [page_glyph] @ asc '' x\<newline>'',
             fence,
             stats_heading,
             dir_count_label @ asc ''2\<newline>'',
             file_count_label @ asc ''1\<newline>'']),
          \<lparr>dir_count = 2, file_count = 1, total_size = 0\<rparr>)"
proof (intro conjI impI)
  assume "name node = rn"
  then show "tree_to_lines rn cfg node prefix is_last
        = (if is_dir node \<and> children node \<noteq> []
           then children_lines rn cfg (children node) 0 (length (children node)) prefix
           else [])"
    by (cases node) simp
next
  show "generate_markdown (main_config False False None False) None example_nested initial_stats
       = (Returned (concat
            [title_prefix @ asc ''proj\<newline>\<newline>'',
             fence,
             [folder_glyph] @ asc '' proj/\<newline>'',
             connector True @ [page_glyph] @ asc '' x\<newline>'',
             fence,
             stats_heading,
             dir_count_label @ asc ''2\<newline>'',
             file_count_label @ asc ''1\<newline>'']),
          \<lparr>dir_count = 2, file_count = 1, total_size = 0\<rparr>)"
    by (simp add: eval_defs example_nested_def)
qed

theorem root_treatment_by_name_witness:
  "name (TreeNode (asc ''proj'') True 0 [TreeNode (asc ''x'') False 0 []]) = asc ''proj''
   \<and> tree_to_lines (asc ''proj'') (main_config False False None False)
        (TreeNode (asc ''proj'') True 0 [TreeNode (asc ''x'') False 0 []]) (asc ''    '') False
       = [asc ''    '' @ connector True @ [page_glyph] @ asc '' x\<newline>'']"
  using root_treatment_by_name [of "TreeNode (asc ''proj'') True 0 [TreeNode (asc ''x'') False 0 []]"
      "asc ''proj''" "main_config False False None False" "asc ''    ''" False]
  by (simp add: eval_defs)

section \<open>The renderer against the specification\<close>

lemma spec_ancestry_prefix_snoc:
  "spec_ancestry_prefix (anc @ [il])
     = spec_ancestry_prefix anc @ (if il then asc ''    '' else box_vert # asc ''   '')"
  by (simp add: spec_ancestry_prefix_def)

lemma tree_to_lines_spec:
  "\<forall>u\<in>set (subtrees node). name u \<noteq> rn \<and> (is_dir u \<or> children u = []) \<Longrightarrow>
   tree_to_lines rn cfg node (spec_ancestry_prefix anc) il
     = spec_entry_line cfg anc il node # spec_lines cfg (anc @ [il]) (children node)"
  "\<forall>u\<in>set (concat (map subtrees cs)). name u \<noteq> rn \<and> (is_dir u \<or> children u = []) \<Longrightarrow>
   i + length cs = len \<Longrightarrow>
   children_lines rn cfg cs i len (spec_ancestry_prefix anc) = spec_lines cfg anc cs"
proof (induction rn cfg node "spec_ancestry_prefix anc" il
    and rn cfg cs i len "spec_ancestry_prefix anc"
    arbitrary: anc and anc rule: tree_to_lines_children_lines.induct)
  case (1 root_path_name cfg n d sz cs is_last)
  from "1.prems" have ne: "n \<noteq> root_path_name" and leaf: "d \<or> cs = []"
    and below: "\<forall>u\<in>set (concat (map subtrees cs)).
        name u \<noteq> root_path_name \<and> (is_dir u \<or> children u = [])"
    by simp_all
  show ?case
  proof (cases "d \<and> cs \<noteq> []")
    case True
    have "children_lines root_path_name cfg cs 0 (length cs) (spec_ancestry_prefix (anc @ [is_last]))
        = spec_lines cfg (anc @ [is_last]) cs"
      by (rule "1.hyps" [OF True _ below]) (simp_all add: ne spec_ancestry_prefix_snoc)
    with True ne show ?thesis
      by (simp add: spec_entry_line_def spec_ancestry_prefix_snoc)
  next
    case False
    with leaf have "cs = []" by blast
    with ne show ?thesis by (simp add: spec_entry_line_def)
  qed
next
  case (2 root_path_name cfg i len)
  show ?case by simp
next
  case (3 root_path_name cfg child rest i len)
  obtain n d s cs where child: "child = TreeNode n d s cs" by (cases child)
  from "3.prems"(2) have il: "(i = len - 1) = (rest = [])" by auto
  from "3.prems"(1) have
    p1: "\<forall>u\<in>set (subtrees child). name u \<noteq> root_path_name \<and> (is_dir u \<or> children u = [])"
    and p2: "\<forall>u\<in>set (concat (map subtrees rest)).
        name u \<noteq> root_path_name \<and> (is_dir u \<or> children u = [])"
    by simp_all
  have a: "tree_to_lines root_path_name cfg child (spec_ancestry_prefix anc) (i = len - 1)
      = spec_entry_line cfg anc (i = len - 1) child
          # spec_lines cfg (anc @ [i = len - 1]) (children child)"
    by (rule "3.hyps"(1) [OF refl p1])
  have b: "children_lines root_path_name cfg rest (i + 1) len (spec_ancestry_prefix anc)
      = spec_lines cfg anc rest"
    by (rule "3.hyps"(2) [OF refl p2]) (use "3.prems"(2) in simp)
  have "children_lines root_path_name cfg (child # rest) i len (spec_ancestry_prefix anc)
      = tree_to_lines root_path_name cfg child (spec_ancestry_prefix anc) (i = len - 1)
        @ children_lines root_path_name cfg rest (i + 1) len (spec_ancestry_prefix anc)"
    by simp
  also have "\<dots> = (spec_entry_line cfg anc (rest = []) child
        # spec_lines cfg (anc @ [rest = []]) (children child)) @ spec_lines cfg anc rest"
    by (simp only: il a [unfolded il] b)
  also have "\<dots> = spec_lines cfg anc (child # rest)"
    by (simp add: child)
  finally show ?case .
qed

lemma build_tree_leaves:
  "\<forall>t. fst (build_tree cfg e depth st) = Returned (Some t) \<longrightarrow>
     list_all (\<lambda>u. is_dir u \<or> children u = []) (subtrees t)"
  "\<forall>t\<in>set items. list_all (\<lambda>u. is_dir u \<or> children u = []) (subtrees t) \<Longrightarrow>
   \<forall>its. fst (build_items cfg es depth items st) = Returned its \<longrightarrow>
     (\<forall>t\<in>set its. list_all (\<lambda>u. is_dir u \<or> children u = []) (subtrees t))"
proof (induction cfg e depth st and cfg es depth items st rule: build_tree_build_items.induct)
  case (1 cfg path depth st)
  show ?case
  proof (cases "max_depth cfg \<noteq> None \<and> depth > the (max_depth cfg)")
    case True
    then show ?thesis by (simp add: build_tree.simps)
  next
    case False
    show ?thesis
    proof (cases path)
      case (FsFile n stat)
      with False show ?thesis
        by (auto simp: build_tree.simps Let_def split: option.splits)
    next
      case (FsUnreadable n)
      with False show ?thesis by (simp add: build_tree.simps)
    next
      case (FsDir n listing)
      show ?thesis
      proof (cases listing)
        case None
        with FsDir False show ?thesis by (simp add: build_tree.simps)
      next
        case (Some entries)
        let ?st1 = "st\<lparr>dir_count := dir_count st + 1\<rparr>"
        obtain r st2 where r: "build_items cfg (sort_key path_name entries) depth [] ?st1 = (r, st2)"
          by (cases "build_items cfg (sort_key path_name entries) depth [] ?st1") auto
        have "\<forall>its. fst (build_items cfg (sort_key path_name entries) depth [] ?st1)
              = Returned its \<longrightarrow>
            (\<forall>t\<in>set its. list_all (\<lambda>u. is_dir u \<or> children u = []) (subtrees t))"
          by (rule "1.IH" [OF False FsDir refl Some]) simp
        with r have ih: "\<forall>its. r = Returned its \<longrightarrow>
            (\<forall>t\<in>set its. list_all (\<lambda>u. is_dir u \<or> children u = []) (subtrees t))"
          by simp
        show ?thesis
          unfolding FsDir Some build_tree_dir_cases [OF False r]
          using ih by (cases r) (simp_all add: list_all_iff)
      qed
    qed
  qed
next
  case (2 cfg depth items st)
  then show ?case by simp
next
  case (3 cfg item rest depth items st)
  note prems = "3.prems"
  show ?case
  proof (cases "should_ignore cfg (path_name item)")
    case True
    then have eq: "build_items cfg (item # rest) depth items st = build_items cfg rest depth items st"
      by simp
    show ?thesis unfolding eq by (rule "3.IH"(1) [OF True prems])
  next
    case False
    obtain r st' where r: "build_tree cfg item (depth + 1) st = (r, st')"
      by (cases "build_tree cfg item (depth + 1) st") auto
    note eq = build_items_step [OF False r, where rest = rest and items = items]
    show ?thesis
    proof (cases r)
      case Raised
      then show ?thesis unfolding eq by simp
    next
      case (Returned ro)
      show ?thesis
      proof (cases ro)
        case None
        show ?thesis unfolding eq Returned None
          using "3.IH"(3) [OF False r [symmetric] Returned None prems] by simp
      next
        case (Some child)
        from "3.IH"(2) [OF False] r Returned Some
        have c: "list_all (\<lambda>u. is_dir u \<or> children u = []) (subtrees child)" by simp
        have q: "\<forall>t\<in>set (items @ [child]).
            list_all (\<lambda>u. is_dir u \<or> children u = []) (subtrees t)"
          using prems c by simp
        show ?thesis unfolding eq Returned Some
          using "3.IH"(4) [OF False r [symmetric] Returned Some q] by simp
      qed
    qed
  qed
qed

text \<open>
  Where no entry below the root has the root's name, the block of the document is the
  root line followed by the lines of the specification.
\<close>

lemma block_lines_spec:
  assumes built: "generate_tree cfg rp st = (Returned (Some t), st')"
    and names: "\<forall>u\<in>set (concat (map subtrees (children t))). name u \<noteq> path_name rp"
  shows "block_lines cfg rn rp t
    = (marker (is_dir t) @ asc '' '' @ mg_root_name rn rp @ asc ''/\<newline>'')
        # spec_lines cfg [] (children t)"
proof -
  from built have "fst (build_tree cfg rp 0 (st\<lparr>dir_count := 0, file_count := 0, total_size := 0\<rparr>))
      = Returned (Some t)"
    by (simp add: generate_tree_def)
  with build_tree_leaves(1) have "list_all (\<lambda>u. is_dir u \<or> children u = []) (subtrees t)"
    by blast
  then have "\<forall>u\<in>set (concat (map subtrees (children t))). is_dir u \<or> children u = []"
    by (cases t) (simp add: list_all_iff)
  with names have ok: "\<forall>u\<in>set (concat (map subtrees (children t))).
      name u \<noteq> path_name rp \<and> (is_dir u \<or> children u = [])"
    by blast
  have "children_lines (path_name rp) cfg (children t) 0 (length (children t)) (spec_ancestry_prefix [])
      = spec_lines cfg [] (children t)"
    by (rule tree_to_lines_spec(2) [OF ok]) simp
  then show ?thesis
    by (simp add: block_lines_def spec_ancestry_prefix_def)
qed

text \<open>
  C4, at \<open>example_nested\<close>: the block of the code has the root line and the line of
  \<open>x\<close> with the empty prefix; the block of the specification has a line for the inner
  directory \<open>proj\<close> and the line of \<open>x\<close> under it, four spaces in.
\<close>

theorem nested_name_block_diverges:
  "fst (generate_tree (main_config False False None False) example_nested initial_stats)
     = Returned (Some (TreeNode (asc ''proj'') True 0
         [TreeNode (asc ''proj'') True 0 [TreeNode (asc ''x'') False 0 []]]))
   \<and> block_lines (main_config False False None False) None example_nested
       (TreeNode (asc ''proj'') True 0
         [TreeNode (asc ''proj'') True 0 [TreeNode (asc ''x'') False 0 []]])
       = [[folder_glyph] @ asc '' proj/\<newline>'',
          connector True @ [page_glyph] @ asc '' x\<newline>'']
   \<and> spec_lines (main_config False False None False) []
       [TreeNode (asc ''proj'') True 0 [TreeNode (asc ''x'') False 0 []]]
       = [connector True @ [folder_glyph] @ asc '' proj\<newline>'',
          asc ''    '' @ connector True @ [page_glyph] @ asc '' x\<newline>'']"
  by (simp add: eval_defs example_nested_def spec_entry_line_def spec_ancestry_prefix_def)

section \<open>Rendering and parsing back\<close>

lemmas glyph_defs = folder_glyph_def page_glyph_def box_up_right_def box_vert_right_def
  box_horiz_def box_vert_def

lemmas parse_defs = is_space_def py_lstrip_def py_strip_def re_match_def root_pattern_def
  content_pattern_def parse_line_def parse_tree_lines_def fenced_block_lines_def parsed_tree_def
  new_node_def glyph_defs upt_rec

lemma example_two_levels_tree:
  "fst (generate_tree (main_config False False None False) example_two_levels initial_stats)
     = Returned (Some (TreeNode (asc ''proj'') True 0
         [TreeNode (asc ''a'') True 0 [TreeNode (asc ''x'') False 1 []],
          TreeNode (asc ''b'') False 2 []]))"
  by (simp add: eval_defs example_two_levels_def)

lemma example_two_levels_lines:
  "fenced_block_lines (block_lines (main_config False False None False) None example_two_levels
       (TreeNode (asc ''proj'') True 0
         [TreeNode (asc ''a'') True 0 [TreeNode (asc ''x'') False 1 []],
          TreeNode (asc ''b'') False 2 []]))
     = [[folder_glyph] @ asc '' proj/'',
        connector False @ [folder_glyph] @ asc '' a'',
        box_vert # asc ''   '' @ connector True @ [page_glyph] @ asc '' x'',
        connector True @ [page_glyph] @ asc '' b'']"
  by (simp add: eval_defs parse_defs example_two_levels_def)

lemma under_bar_line_skipped:
  "parse_line (box_vert # asc ''   '' @ connector True @ [page_glyph] @ asc '' x'') state = state"
  by (cases state) (simp add: eval_defs parse_defs)

lemma example_two_levels_parsed:
  "parsed_tree
       [[folder_glyph] @ asc '' proj/'',
        connector False @ [folder_glyph] @ asc '' a'',
        box_vert # asc ''   '' @ connector True @ [page_glyph] @ asc '' x'',
        connector True @ [page_glyph] @ asc '' b'']
     = Some (ViewTree (asc ''proj'') True []
         [ViewTree (asc ''a'') True [] [], ViewTree (asc ''b'') False [] []])"
  by (simp add: eval_defs parse_defs)

text \<open>
  C1, at \<open>example_two_levels\<close>: the block has four lines; the line of \<open>x\<close> begins
  with the vertical bar of its ancestor \<open>a\<close>, which \<open>lstrip\<close> does not remove, so the
  pattern does not match and the parser skips the line. The tree it returns has \<open>a\<close>
  without children; the tree of the builder has \<open>x\<close> under \<open>a\<close>.
\<close>

theorem round_trip_loses_entry_under_bar:
  "fst (generate_tree (main_config False False None False) example_two_levels initial_stats)
     = Returned (Some (TreeNode (asc ''proj'') True 0
         [TreeNode (asc ''a'') True 0 [TreeNode (asc ''x'') False 1 []],
          TreeNode (asc ''b'') False 2 []]))
   \<and> parsed_tree (fenced_block_lines
         (block_lines (main_config False False None False) None example_two_levels
           (TreeNode (asc ''proj'') True 0
             [TreeNode (asc ''a'') True 0 [TreeNode (asc ''x'') False 1 []],
              TreeNode (asc ''b'') False 2 []])))
       = Some (ViewTree (asc ''proj'') True []
           [ViewTree (asc ''a'') True [] [], ViewTree (asc ''b'') False [] []])
   \<and> view_of (main_config False False None False)
         (TreeNode (asc ''proj'') True 0
           [TreeNode (asc ''a'') True 0 [TreeNode (asc ''x'') False 1 []],
            TreeNode (asc ''b'') False 2 []])
       = ViewTree (asc ''proj'') True []
           [ViewTree (asc ''a'') True [] [ViewTree (asc ''x'') False [] []],
            ViewTree (asc ''b'') False [] []]"
  apply (intro conjI)
    apply (rule example_two_levels_tree)
   apply (simp only: example_two_levels_lines example_two_levels_parsed)
  apply (simp add: main_config_def)
  done

text \<open>At \<open>example_proj\<close>, where no line begins with a vertical bar, the parser gives
  back the tree of the builder, the sizes as the text of the lines.\<close>

lemma example_proj_round_trip:
  "parsed_tree (fenced_block_lines
       (block_lines (main_config False False None True) None example_proj
         (TreeNode (asc ''proj'') True 0
           [TreeNode (asc ''a.txt'') False 10 [],
            TreeNode (asc ''b'') True 0 [TreeNode (asc ''c.txt'') False 2048 []]])))
     = Some (view_of (main_config False False None True)
         (TreeNode (asc ''proj'') True 0
           [TreeNode (asc ''a.txt'') False 10 [],
            TreeNode (asc ''b'') True 0 [TreeNode (asc ''c.txt'') False 2048 []]]))"
  by (simp add: eval_defs parse_defs example_proj_def)

end
